theory Spec2Isabelle
  imports Complex_Main "HOL-Library.Log_Nat"
begin

section \<open>JavaScript values\<close>

text \<open>
  The functions of \<^verbatim>\<open>main.js\<close> are dynamically typed. Their parameters are documented as
  strings and numbers, the form hands them the strings of its input elements, and the
  responses of the server are JSON. The model therefore has three layers of values:
  numbers, primitive values, and the data that \<^verbatim>\<open>JSON.parse\<close> builds from them.

  A number is an IEEE double: not-a-number, the two infinities, negative zero, or a
  finite value, which \<open>Fin\<close> carries as the rational it denotes (\<open>Fin 0\<close> is positive
  zero). The functions below that build numbers return a \<open>Fin r\<close> only for \<open>r\<close> a double.

  A string is the list of its UTF-8 bytes.

  Symbols, BigInts and objects with methods lie outside the documented parameter types and
  are not values of the model.
\<close>

datatype jsnum = NaN | PosInf | NegInf | NegZero | Fin rat

datatype prim = Undefined | Null | Bool bool | Num jsnum | Str string

datatype jsval = Prim prim | Arr "jsval list" | Obj "(string \<times> jsval) list"

datatype js_error = TypeError | SyntaxError

subsection \<open>Rounding a rational to a double\<close>

text \<open>\<open>ilog b r\<close> is the integer part of the logarithm of \<open>r\<close> to the base \<open>b\<close>, for \<open>0 < r\<close>.\<close>

definition ilog :: "nat \<Rightarrow> rat \<Rightarrow> int" where
  "ilog b r = (case quotient_of r of (p, q) \<Rightarrow>
     let d = int (floorlog b (nat p)) - int (floorlog b (nat q))
     in if of_nat b powi d \<le> r then d else d - 1)"

definition round_half_even :: "rat \<Rightarrow> int" where
  "round_half_even m = (let f = \<lfloor>m\<rfloor>; d = m - of_int f
     in if d < 1 / 2 then f else if 1 / 2 < d then f + 1
        else if even f then f else f + 1)"

text \<open>
  The double nearest to the magnitude \<open>m\<close> with the sign \<open>neg\<close>, ties to the even
  significand: 53 bits of precision, the least exponent \<open>-1022\<close>, overflow to infinity
  from \<open>2 ^ 1024\<close> on, underflow to a signed zero.
\<close>

definition round_double :: "bool \<Rightarrow> rat \<Rightarrow> jsnum" where
  "round_double neg m = (if m = 0 then (if neg then NegZero else Fin 0) else
     let q = max (ilog 2 m) (- 1022) - 52;
         v = of_int (round_half_even (m / 2 powi q)) * 2 powi q
     in if 2 ^ 1024 \<le> v then (if neg then NegInf else PosInf)
        else if v = 0 then (if neg then NegZero else Fin 0)
        else Fin (if neg then - v else v))"

subsection \<open>Number::toString\<close>

fun dec :: "nat \<Rightarrow> string" where
  "dec n = (if n < 10 then [char_of (48 + n)]
            else dec (n div 10) @ [char_of (48 + n mod 10)])"

text \<open>
  The decimal digits of a finite positive number \<open>r\<close>: integers \<open>k\<close>, \<open>s\<close> and \<open>n\<close> with
  \<open>10 ^ (k - 1) \<le> s < 10 ^ k\<close> such that \<open>s * 10 ^ (n - k)\<close> rounds to \<open>r\<close>, with \<open>k\<close> as
  small as possible and, among those, \<open>s * 10 ^ (n - k)\<close> closest to \<open>r\<close>, the even \<open>s\<close> of
  two that are equally close. Seventeen digits identify every double.
\<close>

definition candidates :: "rat \<Rightarrow> nat \<Rightarrow> (int \<times> int) list" where
  "candidates r k = (let n0 = ilog 10 r + 1 in
     filter (\<lambda>(s, n). 10 ^ (k - 1) \<le> s \<and> s < 10 ^ k \<and>
                round_double False (of_int s * 10 powi (n - int k)) = Fin r)
       (concat (map (\<lambda>n. let f = \<lfloor>r / 10 powi (n - int k)\<rfloor> in [(f, n), (f + 1, n)])
          [n0, n0 + 1])))"

definition closest :: "rat \<Rightarrow> nat \<Rightarrow> (int \<times> int) list \<Rightarrow> (int \<times> int) option" where
  "closest r k cs = (case cs of [] \<Rightarrow> None | c # cs' \<Rightarrow>
     Some (foldl (\<lambda>(s, n) (s', n').
        let d = \<bar>of_int s * 10 powi (n - int k) - r\<bar>;
            d' = \<bar>of_int s' * 10 powi (n' - int k) - r\<bar>
        in if d' < d \<or> (d' = d \<and> even s') then (s', n') else (s, n)) c cs'))"

definition shortest :: "rat \<Rightarrow> (nat \<times> int \<times> int) option" where
  "shortest r = (case List.find (\<lambda>k. candidates r k \<noteq> []) [1..<18] of
      None \<Rightarrow> None
    | Some k \<Rightarrow> map_option (\<lambda>(s, n). (k, s, n)) (closest r k (candidates r k)))"

definition format_digits :: "nat \<Rightarrow> int \<Rightarrow> int \<Rightarrow> string" where
  "format_digits k s n = (let ds = dec (nat s) in
     if int k \<le> n \<and> n \<le> 21 then ds @ replicate (nat (n - int k)) CHR ''0''
     else if 0 < n \<and> n \<le> 21 then take (nat n) ds @ ''.'' @ drop (nat n) ds
     else if - 6 < n \<and> n \<le> 0 then ''0.'' @ replicate (nat (- n)) CHR ''0'' @ ds
     else (if k = 1 then ds else take 1 ds @ ''.'' @ drop 1 ds) @ ''e'' @
          (if n - 1 < 0 then ''-'' else ''+'') @ dec (nat \<bar>n - 1\<bar>))"

text \<open>A \<open>Fin r\<close> whose \<open>r\<close> is not a double has no digits; it is rendered as \<open>NaN\<close>.\<close>

definition Number_toString :: "jsnum \<Rightarrow> string" where
  "Number_toString x = (case x of
      NaN \<Rightarrow> ''NaN'' | PosInf \<Rightarrow> ''Infinity'' | NegInf \<Rightarrow> ''-Infinity'' | NegZero \<Rightarrow> ''0''
    | Fin r \<Rightarrow> if r = 0 then ''0'' else
        (case shortest \<bar>r\<bar> of
           None \<Rightarrow> ''NaN''
         | Some (k, s, n) \<Rightarrow> (if r < 0 then ''-'' else '''') @ format_digits k s n))"

subsection \<open>White space\<close>

text \<open>
  The white space and line terminator characters of the language, as UTF-8: TAB, LF, VT, FF,
  CR, SP, U+00A0, U+1680, U+2000 to U+200A, U+2028, U+2029, U+202F, U+205F, U+3000 and
  U+FEFF. They are what \<^verbatim>\<open>\s\<close> matches and what the conversion of a string to a number
  skips at both ends.
\<close>

definition white_space :: "string list" where
  "white_space =
    [[CHR 0x09], [CHR 0x0A], [CHR 0x0B], [CHR 0x0C], [CHR 0x0D], [CHR 0x20],
     [CHR 0xC2, CHR 0xA0], [CHR 0xE1, CHR 0x9A, CHR 0x80],
     [CHR 0xE2, CHR 0x80, CHR 0x80], [CHR 0xE2, CHR 0x80, CHR 0x81],
     [CHR 0xE2, CHR 0x80, CHR 0x82], [CHR 0xE2, CHR 0x80, CHR 0x83],
     [CHR 0xE2, CHR 0x80, CHR 0x84], [CHR 0xE2, CHR 0x80, CHR 0x85],
     [CHR 0xE2, CHR 0x80, CHR 0x86], [CHR 0xE2, CHR 0x80, CHR 0x87],
     [CHR 0xE2, CHR 0x80, CHR 0x88], [CHR 0xE2, CHR 0x80, CHR 0x89],
     [CHR 0xE2, CHR 0x80, CHR 0x8A], [CHR 0xE2, CHR 0x80, CHR 0xA8],
     [CHR 0xE2, CHR 0x80, CHR 0xA9], [CHR 0xE2, CHR 0x80, CHR 0xAF],
     [CHR 0xE2, CHR 0x81, CHR 0x9F], [CHR 0xE3, CHR 0x80, CHR 0x80],
     [CHR 0xEF, CHR 0xBB, CHR 0xBF]]"

definition StrWhiteSpaceChar :: "string \<Rightarrow> bool" where
  "StrWhiteSpaceChar w = (w \<in> set white_space)"

text \<open>The number of bytes of the token of \<open>tbl\<close> that \<open>s\<close> starts with, \<open>0\<close> if there is none.\<close>

definition token_len :: "string list \<Rightarrow> string \<Rightarrow> nat" where
  "token_len tbl s =
     (if take 1 s \<in> set tbl then 1
      else if take 2 s \<in> set tbl then 2
      else if take 3 s \<in> set tbl then 3 else 0)"

fun strip_tokens :: "string list \<Rightarrow> string \<Rightarrow> string" where
  "strip_tokens tbl [] = []"
| "strip_tokens tbl (c # cs) =
     (if token_len tbl (c # cs) = 0 then c # cs
      else strip_tokens tbl (drop (token_len tbl (c # cs) - 1) cs))"

definition trim :: "string \<Rightarrow> string" where
  "trim s = rev (strip_tokens (map rev white_space) (rev (strip_tokens white_space s)))"

text \<open>\<^verbatim>\<open>s.replace(/(\s)/gm, "")\<close>, the normal form in which the tests compare markup.\<close>

fun remove_white_space :: "string \<Rightarrow> string" where
  "remove_white_space [] = []"
| "remove_white_space (c # cs) =
     (if token_len white_space (c # cs) = 0 then c # remove_white_space cs
      else remove_white_space (drop (token_len white_space (c # cs) - 1) cs))"

subsection \<open>StringToNumber\<close>

definition digit_of :: "char \<Rightarrow> nat option" where
  "digit_of c = (let v = (of_char c :: nat) in
     if 48 \<le> v \<and> v \<le> 57 then Some (v - 48)
     else if 97 \<le> v \<and> v \<le> 102 then Some (v - 87)
     else if 65 \<le> v \<and> v \<le> 70 then Some (v - 55)
     else None)"

definition is_digit :: "nat \<Rightarrow> char \<Rightarrow> bool" where
  "is_digit b c = (case digit_of c of None \<Rightarrow> False | Some d \<Rightarrow> d < b)"

definition digits_value :: "nat \<Rightarrow> string \<Rightarrow> nat" where
  "digits_value b ds = foldl (\<lambda>a c. b * a + (case digit_of c of None \<Rightarrow> 0 | Some d \<Rightarrow> d)) 0 ds"

definition digits :: "nat \<Rightarrow> string \<Rightarrow> bool" where
  "digits b ds = (ds \<noteq> [] \<and> list_all (is_digit b) ds)"

text \<open>\<^verbatim>\<open>0x\<close>, \<open>0o\<close> and \<open>0b\<close> literals, in either case of the letter; they take no sign.\<close>

definition NonDecimalIntegerLiteral :: "string \<Rightarrow> nat option" where
  "NonDecimalIntegerLiteral s = (case s of
      z # x # ds \<Rightarrow>
        let b = (if x = CHR ''x'' \<or> x = CHR ''X'' then 16
                 else if x = CHR ''o'' \<or> x = CHR ''O'' then 8
                 else if x = CHR ''b'' \<or> x = CHR ''B'' then 2 else 0)
        in if z = CHR ''0'' \<and> digits b ds then Some (digits_value b ds) else None
    | _ \<Rightarrow> None)"

text \<open>The exponent part of a decimal literal; the empty rest is the exponent \<open>0\<close>.\<close>

definition ExponentPart :: "string \<Rightarrow> int option" where
  "ExponentPart s = (case s of
      [] \<Rightarrow> Some 0
    | e # r \<Rightarrow>
        if e = CHR ''e'' \<or> e = CHR ''E'' then
          (case r of
             [] \<Rightarrow> None
           | c # ds \<Rightarrow>
               if c = CHR ''-'' then
                 (if digits 10 ds then Some (- int (digits_value 10 ds)) else None)
               else if c = CHR ''+'' then
                 (if digits 10 ds then Some (int (digits_value 10 ds)) else None)
               else (if digits 10 r then Some (int (digits_value 10 r)) else None))
        else None)"

text \<open>
  An unsigned decimal literal: \<open>None\<close> when the string is none, \<open>Some None\<close> for
  \<^verbatim>\<open>Infinity\<close>, else the value it denotes.
\<close>

definition StrUnsignedDecimalLiteral :: "string \<Rightarrow> rat option option" where
  "StrUnsignedDecimalLiteral s =
     (if s = ''Infinity'' then Some None else
      let ip = takeWhile (is_digit 10) s;
          r1 = dropWhile (is_digit 10) s;
          dot = (r1 \<noteq> [] \<and> hd r1 = CHR ''.'');
          fp = (if dot then takeWhile (is_digit 10) (tl r1) else []);
          r2 = (if dot then dropWhile (is_digit 10) (tl r1) else r1)
      in if ip = [] \<and> fp = [] then None
         else case ExponentPart r2 of
                None \<Rightarrow> None
              | Some e \<Rightarrow>
                  Some (Some (of_nat (digits_value 10 (ip @ fp)) * 10 powi (e - int (length fp)))))"

definition StringToNumber :: "string \<Rightarrow> jsnum" where
  "StringToNumber str = (let s = trim str in
     if s = [] then Fin 0 else
     case NonDecimalIntegerLiteral s of
       Some n \<Rightarrow> round_double False (of_nat n)
     | None \<Rightarrow>
         let neg = (hd s = CHR ''-'');
             body = (if hd s = CHR ''+'' \<or> hd s = CHR ''-'' then tl s else s)
         in case StrUnsignedDecimalLiteral body of
              None \<Rightarrow> NaN
            | Some None \<Rightarrow> (if neg then NegInf else PosInf)
            | Some (Some m) \<Rightarrow> round_double neg m)"

subsection \<open>Conversions and operators on primitive values\<close>

fun ToBoolean :: "prim \<Rightarrow> bool" where
  "ToBoolean Undefined = False"
| "ToBoolean Null = False"
| "ToBoolean (Bool b) = b"
| "ToBoolean (Num n) = (n \<noteq> NaN \<and> n \<noteq> NegZero \<and> n \<noteq> Fin 0)"
| "ToBoolean (Str s) = (s \<noteq> [])"

fun ToNumber :: "prim \<Rightarrow> jsnum" where
  "ToNumber Undefined = NaN"
| "ToNumber Null = Fin 0"
| "ToNumber (Bool b) = (if b then Fin 1 else Fin 0)"
| "ToNumber (Num n) = n"
| "ToNumber (Str s) = StringToNumber s"

fun ToString :: "prim \<Rightarrow> string" where
  "ToString Undefined = ''undefined''"
| "ToString Null = ''null''"
| "ToString (Bool b) = (if b then ''true'' else ''false'')"
| "ToString (Num n) = Number_toString n"
| "ToString (Str s) = s"

text \<open>The global function \<^verbatim>\<open>isNaN\<close>.\<close>

definition isNaN :: "prim \<Rightarrow> bool" where
  "isNaN v = (ToNumber v = NaN)"

text \<open>\<^verbatim>\<open>v < 0\<close>: the operand becomes a number; not-a-number and both zeros are not below zero.\<close>

definition less_than_zero :: "prim \<Rightarrow> bool" where
  "less_than_zero v = (case ToNumber v of
      NaN \<Rightarrow> False | PosInf \<Rightarrow> False | NegInf \<Rightarrow> True | NegZero \<Rightarrow> False | Fin r \<Rightarrow> r < 0)"

text \<open>\<^verbatim>\<open>xs.join(sep)\<close> on an array of strings.\<close>

fun join :: "string \<Rightarrow> string list \<Rightarrow> string" where
  "join sep [] = []"
| "join sep [x] = x"
| "join sep (x # y # ys) = x @ sep @ join sep (y # ys)"

section \<open>Validation of the form\<close>

record Valid =
  valid :: bool
  errors :: "string list"

definition invalidProject :: string where
  "invalidProject =
     ''A valid project name is required and can not be empty example: (sunshine)''"

definition invalidStatus :: string where
  "invalidStatus =
     ''A valid status is required and can not be empty example: (1 for Open or 3 for In process)''"

definition invalidStatusFor :: string where
  "invalidStatusFor = ''A valid number of days is required and must be a positive number''"

definition isValid :: "prim \<Rightarrow> prim \<Rightarrow> prim \<Rightarrow> Valid" where
  "isValid project status inStatusFor =
     (let errors0 = [];
          errors1 = (if ToBoolean project then errors0 else errors0 @ [invalidProject]);
          errors2 = (if ToBoolean status then errors1 else errors1 @ [invalidStatus]);
          errors3 = (if inStatusFor = Str '''' \<or> isNaN inStatusFor \<or> less_than_zero inStatusFor
                     then errors2 @ [invalidStatusFor] else errors2)
      in if length errors3 \<noteq> 0 then \<lparr>valid = False, errors = errors3\<rparr>
         else \<lparr>valid = True, errors = []\<rparr>)"

section \<open>Request URLs\<close>

text \<open>\<open>maxResults\<close> has the default \<open>100\<close>, taken when the argument is \<^verbatim>\<open>undefined\<close>.\<close>

definition queryURL :: "prim \<Rightarrow> prim \<Rightarrow> prim \<Rightarrow> prim \<Rightarrow> string" where
  "queryURL project status inStatusFor maxResults0 =
     (let maxResults = (if maxResults0 = Undefined then Num (Fin 100) else maxResults0);
          baseURL = ''https://jira.secondlife.com/rest/api/2/search?jql='';
          queryString = ''project='' @ ToString project @ ''+and+status='' @ ToString status @
            ''+and+status+changed+to+'' @ ToString status @ ''+before+-'' @
            ToString inStatusFor @ ''d&fields=id,status,key,assignee,summary&maxresults='' @
            ToString maxResults
      in baseURL @ queryString)"

definition feedURL :: "prim \<Rightarrow> string" where
  "feedURL user =
     ''https://jira.secondlife.com/activity?maxResults=50&streams=user+IS+'' @ ToString user @
     ''&providers=issues''"

section \<open>Markup\<close>

text \<open>A line break of a template literal and the indentation of the line after it.\<close>

definition line_break :: "nat \<Rightarrow> string" where
  "line_break n = CHR 0x0A # replicate n CHR '' ''"

subsection \<open>Rows of the issue search\<close>

text \<open>
  An issue of the search response, with the fields the row reads:
  \<^verbatim>\<open>{key, fields: {status: {description, iconUrl, name}, summary}}\<close>.
\<close>

record issue_status =
  description :: prim
  iconUrl :: prim
  name :: prim

record issue_fields =
  status :: issue_status
  summary :: prim

datatype issue = Issue (key: prim) (fields: issue_fields)

definition buildQueryItems :: "issue list \<Rightarrow> string list" where
  \<open>buildQueryItems items = map (\<lambda>i.
     ''<tr>'' @ line_break 14 @
     ''<td>'' @ ToString (key i) @ ''</td>'' @ line_break 14 @
     ''<td>'' @ line_break 16 @
     ''<span title="'' @ ToString (description (status (fields i))) @ ''">'' @ line_break 18 @
     ''<img src="'' @ ToString (iconUrl (status (fields i))) @ ''" />'' @ line_break 18 @
     ''<span>'' @ ToString (name (status (fields i))) @ ''</span>'' @ line_break 16 @
     ''</span>'' @ line_break 14 @
     ''</td>'' @ line_break 14 @
     ''<td>'' @ ToString (summary (fields i)) @ ''</td>'' @ line_break 12 @
     ''</tr>'') items\<close>

subsection \<open>The results table\<close>

text \<open>\<open>queryType\<close> has the default \<^verbatim>\<open>null\<close>, taken when the argument is \<^verbatim>\<open>undefined\<close>.\<close>

definition resultsTable :: "string list \<Rightarrow> string \<Rightarrow> prim \<Rightarrow> string" where
  \<open>resultsTable items queryName queryType0 =
     (let queryType = (if queryType0 = Undefined then Null else queryType0) in
      ''<h5>'' @ queryName @ '' Results</h5>'' @ line_break 10 @
      ''<table width="100%">'' @ line_break 12 @
      ''<thead>'' @ line_break 12 @
      (if queryType = Str ''query''
       then ''<tr><th>Issue</th><th>Status</th><th>Summary</th></tr>''
       else ''<tr><th>Date</th><th>Activity</th></tr>'') @ line_break 0 @ line_break 12 @
      ''</thead>'' @ line_break 12 @
      ''<tbody>'' @ line_break 14 @
      (if length items \<noteq> 0
       then join '''' items
       else ''<tr><td colspan="3">There are no '' @ queryName @ '' results</td></tr>'') @
      line_break 12 @
      ''</tbody>'' @ line_break 10 @
      ''</table>'')\<close>

section \<open>The activity feed\<close>

text \<open>
  A node of the parsed feed: an element with its qualified name and its child nodes, or a
  node of another kind (text, comment), which the program never looks at. A document is
  the list of its child nodes.
\<close>

datatype xml = Element string "xml list" | Text string

type_synonym document = "xml list"

text \<open>The elements named \<open>tag\<close> among a node and its descendants, in document order.\<close>

fun inclusive_descendants :: "string \<Rightarrow> xml \<Rightarrow> xml list" where
  "inclusive_descendants tag (Text t) = []"
| "inclusive_descendants tag (Element n cs) =
     (if n = tag then [Element n cs] else []) @ concat (map (inclusive_descendants tag) cs)"

text \<open>
  \<^verbatim>\<open>getElementsByTagName\<close> of an element (its descendants) and of a document, for a name
  other than \<^verbatim>\<open>*\<close>.
\<close>

definition getElementsByTagName :: "xml \<Rightarrow> string \<Rightarrow> xml list" where
  "getElementsByTagName e tag =
     (case e of Text t \<Rightarrow> [] | Element n cs \<Rightarrow> concat (map (inclusive_descendants tag) cs))"

definition document_getElementsByTagName :: "document \<Rightarrow> string \<Rightarrow> xml list" where
  "document_getElementsByTagName doc tag = concat (map (inclusive_descendants tag) doc)"

text \<open>
  What the browser computes and the program only calls: the serialisation of an element's
  children (\<^verbatim>\<open>innerHTML\<close>), \<^verbatim>\<open>new Date(s).toLocaleString()\<close>, and the text content of
  the body of an HTML document parsed from a string.
\<close>

record browser =
  innerHTML :: "xml \<Rightarrow> string"
  toLocaleString :: "string \<Rightarrow> string"
  body_textContent :: "string \<Rightarrow> string"

definition domify :: "browser \<Rightarrow> string \<Rightarrow> string" where
  "domify b str = body_textContent b (''<!doctype html><body>'' @ str)"

text \<open>
  The loop of \<^verbatim>\<open>buildFeedItems\<close> over the entries. Reading \<^verbatim>\<open>[0].innerHTML\<close> of an empty
  collection reads a property of \<^verbatim>\<open>undefined\<close> and throws a \<^verbatim>\<open>TypeError\<close>.
\<close>

fun feed_loop :: "browser \<Rightarrow> xml list \<Rightarrow> string list \<Rightarrow> js_error + string list" where
  "feed_loop b [] items = Inr items"
| "feed_loop b (entry # entries) items =
     (case getElementsByTagName entry ''title'' of
        [] \<Rightarrow> Inl TypeError
      | title # _ \<Rightarrow>
          (case getElementsByTagName entry ''updated'' of
             [] \<Rightarrow> Inl TypeError
           | upd # _ \<Rightarrow>
               let html = innerHTML b title; updated = innerHTML b upd
               in feed_loop b entries (items @
                    [''<tr>'' @ line_break 10 @
                     ''<td>'' @ toLocaleString b updated @ ''</td>'' @ line_break 10 @
                     ''<td>'' @ domify b html @ ''</td>'' @ line_break 6 @
                     ''</tr>''])))"

definition buildFeedItems :: "browser \<Rightarrow> document \<Rightarrow> js_error + string list" where
  "buildFeedItems b result =
     (case document_getElementsByTagName result ''feed'' of
        [] \<Rightarrow> Inl TypeError
      | feed0 # _ \<Rightarrow> feed_loop b (getElementsByTagName feed0 ''entry'') [])"

section \<open>Requests\<close>

subsection \<open>Values parsed from JSON\<close>

text \<open>
  The conversion of a value to a string and \<^verbatim>\<open>Array.prototype.join\<close>. An element that is
  \<^verbatim>\<open>undefined\<close> or \<^verbatim>\<open>null\<close> joins as the empty string, an array as its elements joined by
  commas, an object as \<^verbatim>\<open>[object Object]\<close>. An object with a key \<^verbatim>\<open>toString\<close> of its own
  hides the method of that name by a value that cannot be called, and the conversion throws.
\<close>

fun ToString_val :: "jsval \<Rightarrow> js_error + string"
  and join_vals :: "string \<Rightarrow> jsval list \<Rightarrow> js_error + string" where
  "ToString_val (Prim p) = Inr (ToString p)"
| "ToString_val (Arr xs) = join_vals '','' xs"
| "ToString_val (Obj kvs) =
     (case map_of kvs ''toString'' of None \<Rightarrow> Inr ''[object Object]'' | Some v \<Rightarrow> Inl TypeError)"
| "join_vals sep [] = Inr []"
| "join_vals sep (x # xs) =
     (case (if x = Prim Undefined \<or> x = Prim Null then Inr [] else ToString_val x) of
        Inl e \<Rightarrow> Inl e
      | Inr a \<Rightarrow>
          if xs = [] then Inr a
          else (case join_vals sep xs of Inl e \<Rightarrow> Inl e | Inr r \<Rightarrow> Inr (a @ sep @ r)))"

text \<open>
  Reading the property \<open>k\<close> of a value, for a name such as \<^verbatim>\<open>errorMessages\<close> that no built-in
  prototype defines: a \<^verbatim>\<open>TypeError\<close> on \<^verbatim>\<open>undefined\<close> and \<^verbatim>\<open>null\<close>, the value of the key on
  an object that has it, \<^verbatim>\<open>undefined\<close> otherwise.
\<close>

definition Get :: "jsval \<Rightarrow> string \<Rightarrow> js_error + jsval" where
  "Get v k = (case v of
      Prim p \<Rightarrow> (if p = Undefined \<or> p = Null then Inl TypeError else Inr (Prim Undefined))
    | Arr xs \<Rightarrow> Inr (Prim Undefined)
    | Obj kvs \<Rightarrow> Inr (case map_of kvs k of None \<Rightarrow> Prim Undefined | Some x \<Rightarrow> x))"

text \<open>The call \<^verbatim>\<open>v.join(sep)\<close>: only an array has the method.\<close>

definition call_join :: "jsval \<Rightarrow> string \<Rightarrow> js_error + string" where
  "call_join v sep = (case v of Arr xs \<Rightarrow> join_vals sep xs | Prim p \<Rightarrow> Inl TypeError
                      | Obj kvs \<Rightarrow> Inl TypeError)"

subsection \<open>The status line\<close>

text \<open>
  The state the request functions act on: the status element of the popup, and the URLs
  fetched so far.
\<close>

record world =
  statusElement_innerHTML :: string
  statusElement_hidden :: bool
  fetched :: "string list"

definition updateStatus :: "string \<Rightarrow> bool \<Rightarrow> world \<Rightarrow> world" where
  "updateStatus message error w =
     w\<lparr>statusElement_innerHTML := (if error then ''ERROR. '' @ message else message),
       statusElement_hidden := False\<rparr>"

text \<open>The expression \<^verbatim>\<open>json.errorMessages.join("</br>")\<close>.\<close>

definition errorMessages_joined :: "jsval \<Rightarrow> js_error + string" where
  "errorMessages_joined json =
     (case Get json ''errorMessages'' of Inl e \<Rightarrow> Inl e | Inr v \<Rightarrow> call_join v ''</br>'')"

text \<open>\<open>status_code\<close> is \<open>None\<close> when the argument is left out.\<close>

definition handleError :: "jsval \<Rightarrow> nat option \<Rightarrow> world \<Rightarrow> js_error + world" where
  "handleError json status_code w =
     (case (if status_code = Some 401
            then Inr ''You must be logged in to JIRA to see this project.''
            else errorMessages_joined json) of
        Inl e \<Rightarrow> Inl e
      | Inr message \<Rightarrow> Inr (updateStatus message True w))"

subsection \<open>The request\<close>

text \<open>
  A response is its status and what its body reads as: \<open>response_json\<close> is the result of
  \<^verbatim>\<open>response.json()\<close>, \<open>None\<close> when the body is not JSON and the call rejects with a
  \<^verbatim>\<open>SyntaxError\<close>; \<open>response_xml\<close> is the document that \<^verbatim>\<open>DOMParser\<close> makes of
  \<^verbatim>\<open>response.text()\<close>. \<^verbatim>\<open>response.ok\<close> holds for the statuses 200 to 299.
\<close>

record response =
  response_status :: nat
  response_json :: "jsval option"
  response_xml :: document

definition response_ok :: "response \<Rightarrow> bool" where
  "response_ok r = (200 \<le> response_status r \<and> response_status r \<le> 299)"

text \<open>\<^verbatim>\<open>fetch\<close> rejects when the request cannot complete, and resolves with a response else.\<close>

datatype fetch_result = Rejects | Resolves response

datatype request_result =
  ReturnsFalse | ReturnsUndefined | ReturnsJSON jsval | ReturnsXML document

definition handleResponse :: "response \<Rightarrow> prim \<Rightarrow> js_error + request_result" where
  "handleResponse r responseType =
     (if responseType = Str ''json''
      then (case response_json r of None \<Rightarrow> Inl SyntaxError | Some j \<Rightarrow> Inr (ReturnsJSON j))
      else Inr (ReturnsXML (response_xml r)))"

definition network_error :: jsval where
  "network_error = Obj [(''errorMessages'', Arr [Prim (Str ''Network Error'')])]"

text \<open>
  \<open>attempt\<close> is the \<^verbatim>\<open>try\<close> block: \<open>Inl\<close> when it throws, into the \<^verbatim>\<open>catch\<close> clause, else what
  the function returns and the state it leaves. The promise of \<^verbatim>\<open>handleResponse\<close> is returned
  without \<^verbatim>\<open>await\<close>, so its rejection passes the \<^verbatim>\<open>catch\<close> clause by and reaches the caller.
  Each call fetches once.
\<close>

definition make_request ::
  "(string \<Rightarrow> fetch_result) \<Rightarrow> string \<Rightarrow> prim \<Rightarrow> world \<Rightarrow> (js_error + request_result) \<times> world" where
  "make_request fetch url responseType w =
     (let w1 = w\<lparr>fetched := fetched w @ [url]\<rparr>;
          attempt =
            (case fetch url of
               Rejects \<Rightarrow> Inl TypeError
             | Resolves r \<Rightarrow>
                 if response_ok r then Inr (handleResponse r responseType, w1)
                 else (case response_json r of
                         None \<Rightarrow> Inl SyntaxError
                       | Some json \<Rightarrow>
                           (case handleError json (Some (response_status r)) w1 of
                              Inl e \<Rightarrow> Inl e
                            | Inr w2 \<Rightarrow> Inr (Inr ReturnsFalse, w2))))
      in case attempt of
           Inr done \<Rightarrow> done
         | Inl err \<Rightarrow>
             (case handleError network_error None w1 of
                Inl e \<Rightarrow> (Inl e, w1)
              | Inr w2 \<Rightarrow> (Inr ReturnsUndefined, w2)))"

section \<open>Notions the properties are stated with\<close>

text \<open>A string of white space only: the layout between the tags of a template.\<close>

definition blank :: "string \<Rightarrow> bool" where
  "blank w = (remove_white_space w = [])"

text \<open>An entry from which the loop can read both a title and an update time.\<close>

definition well_formed_entry :: "xml \<Rightarrow> bool" where
  "well_formed_entry e =
     (getElementsByTagName e ''title'' \<noteq> [] \<and> getElementsByTagName e ''updated'' \<noteq> [])"

text \<open>
  The row of an entry: the formatted content of its first \<^verbatim>\<open>updated\<close> element and the
  text of the content of its first \<^verbatim>\<open>title\<close> element.
\<close>

definition feed_row :: "browser \<Rightarrow> xml \<Rightarrow> string" where
  "feed_row b e =
     ''<tr>'' @ line_break 10 @
     ''<td>'' @ toLocaleString b (innerHTML b (hd (getElementsByTagName e ''updated''))) @
     ''</td>'' @ line_break 10 @
     ''<td>'' @ domify b (innerHTML b (hd (getElementsByTagName e ''title''))) @
     ''</td>'' @ line_break 6 @
     ''</tr>''"

text \<open>The state after one request to \<open>url\<close> that ended with \<open>message\<close> shown as an error.\<close>

definition error_status :: "string \<Rightarrow> string \<Rightarrow> world \<Rightarrow> world" where
  "error_status url message w =
     \<lparr>statusElement_innerHTML = ''ERROR. '' @ message, statusElement_hidden = False,
      fetched = fetched w @ [url]\<rparr>"

subsection \<open>Sample inputs\<close>

text \<open>The issue of the tests in \<^verbatim>\<open>main.test.js\<close>.\<close>

definition test_issue :: issue where
  "test_issue = Issue (Num (Fin 1))
     \<lparr>status = \<lparr>description = Str ''test'', iconUrl = Str ''testURL'', name = Str ''testName''\<rparr>,
      summary = Str ''testSummary''\<rparr>"

text \<open>A browser that renders a node as its name or text and leaves strings as they are.\<close>

definition sample_browser :: browser where
  "sample_browser = \<lparr>innerHTML = (\<lambda>e. case e of Text t \<Rightarrow> t | Element n cs \<Rightarrow> n),
     toLocaleString = (\<lambda>s. s), body_textContent = (\<lambda>s. s)\<rparr>"







section \<open>Properties\<close>

subsection \<open>Evaluating the conversions\<close>

lemma round_double_small:
  "round_double False 1 = Fin 1" "round_double False 2 = Fin 2"
  "round_double False 10 = Fin 10" "round_double False 100 = Fin 100"
  "round_double False 200 = Fin 200" "round_double False 1000 = Fin 1000"
  by (simp_all add: round_double_def Let_def ilog_def round_half_even_def quotient_of_int
      compute_floorlog power_int_minus)

lemma ilog_10_small: "ilog 10 1 = 0" "ilog 10 100 = 2"
  by (simp_all add: ilog_def quotient_of_int compute_floorlog)

lemma floor_tenth: "\<lfloor>1 / 10 :: rat\<rfloor> = 0"
  by (simp add: floor_eq_iff)

lemma candidates_1: "candidates 1 (Suc 0) = [(1, 1)]"
  by (simp add: candidates_def ilog_10_small round_double_small Let_def floor_tenth)

lemma candidates_100: "candidates 100 (Suc 0) = [(1, 3)]"
  by (simp add: candidates_def ilog_10_small round_double_small Let_def floor_tenth)

lemma upt_1_18: "[Suc 0..<18] = Suc 0 # [2..<18]"
  by (simp add: upt_conv_Cons)

lemma shortest_1: "shortest 1 = Some (1, 1, 1)"
  by (simp add: shortest_def upt_1_18 candidates_1 closest_def)

lemma shortest_100: "shortest 100 = Some (1, 1, 3)"
  by (simp add: shortest_def upt_1_18 candidates_100 closest_def)

lemma format_digits_small:
  "format_digits (Suc 0) 1 1 = ''1''" "format_digits (Suc 0) 1 3 = ''100''"
  by code_simp+

lemma Number_toString_1: "Number_toString (Fin 1) = ''1''"
  by (simp add: Number_toString_def shortest_1 format_digits_small)

lemma Number_toString_100: "Number_toString (Fin 100) = ''100''"
  by (simp add: Number_toString_def shortest_100 format_digits_small)

lemma join_empty_sep: "join [] xs = concat xs"
  by (induction "[] :: string" xs rule: join.induct) simp_all


subsection \<open>White space\<close>

lemma white_space_nonempty: "StrWhiteSpaceChar w \<Longrightarrow> w \<noteq> []"
  by (auto simp: StrWhiteSpaceChar_def white_space_def)

lemma strip_white_space_char:
  assumes "StrWhiteSpaceChar w"
  shows "strip_tokens white_space (w @ t) = strip_tokens white_space t"
proof -
  from assms have "w \<in> set white_space"
    by (simp add: StrWhiteSpaceChar_def)
  then show ?thesis
    unfolding white_space_def by (auto simp: token_len_def)
qed

lemma strip_white_space_concat:
  "list_all StrWhiteSpaceChar ws \<Longrightarrow>
   strip_tokens white_space (concat ws @ t) = strip_tokens white_space t"
  by (induction ws) (simp_all add: strip_white_space_char)

lemma trim_white_space: "list_all StrWhiteSpaceChar ws \<Longrightarrow> trim (concat ws) = []"
  using strip_white_space_concat [of ws "[]"] by (simp add: trim_def)

lemma StringToNumber_white_space:
  "list_all StrWhiteSpaceChar ws \<Longrightarrow> StringToNumber (concat ws) = Fin 0"
  by (simp add: StringToNumber_def trim_white_space)

lemma trim_plain:
  "trim ''-1'' = ''-1''" "trim ''abc'' = ''abc''" "trim ''0'' = ''0''" "trim '' 7 '' = ''7''"
  by (simp_all add: trim_def token_len_def white_space_def)

lemma round_double_more:
  "round_double True 1 = Fin (- 1)" "round_double False 7 = Fin 7" "round_double False 0 = Fin 0"
  by (simp_all add: round_double_def Let_def ilog_def round_half_even_def quotient_of_int
      compute_floorlog power_int_minus)

lemma StringToNumber_examples:
  "StringToNumber ''-1'' = Fin (- 1)" "StringToNumber ''abc'' = NaN"
  "StringToNumber ''0'' = Fin 0" "StringToNumber '' 7 '' = Fin 7"
  by (simp_all add: StringToNumber_def trim_plain NonDecimalIntegerLiteral_def
      StrUnsignedDecimalLiteral_def ExponentPart_def digits_def is_digit_def digit_of_def
      digits_value_def Let_def round_double_more)

lemma remove_white_space_spaces_append:
  "remove_white_space (replicate n CHR '' '' @ s) = remove_white_space s"
  by (induction n) (simp_all add: token_len_def white_space_def)

lemma remove_white_space_line_break_append:
  "remove_white_space (line_break n @ s) = remove_white_space s"
  by (simp add: line_break_def token_len_def white_space_def remove_white_space_spaces_append)

lemma blank_line_break: "blank (line_break n)"
  using remove_white_space_line_break_append [of n "[]"] by (simp add: blank_def)

lemma blank_line_breaks: "blank (line_break m @ line_break n)"
  using blank_line_break [of n] by (simp add: blank_def remove_white_space_line_break_append)

subsection \<open>The validator\<close>

text \<open>
  Claim C1. \<^verbatim>\<open>isValid\<close> collects its errors in the order project, status, days: the
  project error exactly when the project is falsy, the status error exactly when the status
  is falsy, the days error exactly when the days are the empty string, not numeric
  (\<^verbatim>\<open>isNaN\<close> holds) or negative. The result is valid exactly when none of the three applies.
  A string is falsy when it is empty and the number zero is falsy, so a status of \<open>0\<close> is
  refused; zero days are accepted. \<^verbatim>\<open>isValid("", "", "")\<close> is invalid with the three errors
  and \<^verbatim>\<open>isValid("Sunshine", 1, 1)\<close> is valid with none. The form passes strings: of the
  days \<^verbatim>\<open>"0"\<close>, \<^verbatim>\<open>"-1"\<close> and \<^verbatim>\<open>"abc"\<close> the first is accepted and the others are refused.
\<close>

theorem isValid_errors:
  "errors (isValid project st days) =
     (if ToBoolean project then [] else [invalidProject]) @
     (if ToBoolean st then [] else [invalidStatus]) @
     (if days = Str '''' \<or> isNaN days \<or> less_than_zero days then [invalidStatusFor] else []) \<and>
   valid (isValid project st days) =
     (ToBoolean project \<and> ToBoolean st \<and>
      \<not> (days = Str '''' \<or> isNaN days \<or> less_than_zero days)) \<and>
   ToBoolean (Str s) = (s \<noteq> []) \<and>
   ToBoolean (Num n) = (n \<noteq> Fin 0 \<and> n \<noteq> NegZero \<and> n \<noteq> NaN) \<and>
   isValid (Str '''') (Str '''') (Str '''') =
     \<lparr>valid = False, errors = [invalidProject, invalidStatus, invalidStatusFor]\<rparr> \<and>
   isValid (Str ''Sunshine'') (Num (Fin 1)) (Num (Fin 1)) = \<lparr>valid = True, errors = []\<rparr> \<and>
   isValid (Str ''Sunshine'') (Num (Fin 1)) (Num (Fin 0)) = \<lparr>valid = True, errors = []\<rparr> \<and>
   isValid (Str ''Sunshine'') (Num (Fin 0)) (Num (Fin 1)) =
     \<lparr>valid = False, errors = [invalidStatus]\<rparr> \<and>
   isValid (Str ''Sunshine'') (Num (Fin 1)) (Num (Fin (- 1))) =
     \<lparr>valid = False, errors = [invalidStatusFor]\<rparr> \<and>
   isValid (Str ''Sunshine'') (Str ''1'') (Str ''0'') = \<lparr>valid = True, errors = []\<rparr> \<and>
   isValid (Str ''Sunshine'') (Str ''1'') (Str ''-1'') =
     \<lparr>valid = False, errors = [invalidStatusFor]\<rparr> \<and>
   isValid (Str ''Sunshine'') (Str ''1'') (Str ''abc'') =
     \<lparr>valid = False, errors = [invalidStatusFor]\<rparr>"
  by (auto simp: isValid_def Let_def isNaN_def less_than_zero_def StringToNumber_examples)

text \<open>
  Claim C2. On every triple of primitive values \<^verbatim>\<open>isValid\<close> returns a result, and the
  result is valid exactly when its list of errors is empty. Negation, the comparison with the
  empty string, \<^verbatim>\<open>isNaN\<close> and the comparison with zero are defined on every primitive value, so
  no step of the function throws.
\<close>

theorem isValid_returns_result:
  "\<exists>es. isValid project st days = \<lparr>valid = (es = []), errors = es\<rparr>"
  by (simp add: isValid_def Let_def)

text \<open>
  Claim C10. With a truthy project and status, a string of days that is not empty and
  consists of white space only is accepted: it is not the empty string, it converts to the
  number zero, which is neither not-a-number nor negative.
\<close>

theorem isValid_white_space_days:
  assumes "ToBoolean project" and "ToBoolean st"
    and "ws \<noteq> []" and "list_all StrWhiteSpaceChar ws"
  shows "isValid project st (Str (concat ws)) = \<lparr>valid = True, errors = []\<rparr> \<and>
     Str (concat ws) \<noteq> Str '''' \<and> ToNumber (Str (concat ws)) = Fin 0 \<and>
     \<not> isNaN (Str (concat ws)) \<and> \<not> less_than_zero (Str (concat ws))"
proof -
  from assms(3,4) have "concat ws \<noteq> []"
    by (cases ws) (auto dest: white_space_nonempty)
  with assms show ?thesis
    by (simp add: isValid_def Let_def isNaN_def less_than_zero_def StringToNumber_white_space)
qed

theorem isValid_white_space_days_witness:
  "isValid (Str ''Sunshine'') (Num (Fin 1)) (Str '' '') = \<lparr>valid = True, errors = []\<rparr> \<and>
   ToNumber (Str '' '') = Fin 0"
proof -
  have "StrWhiteSpaceChar '' ''"
    by (simp add: StrWhiteSpaceChar_def white_space_def)
  then show ?thesis
    using isValid_white_space_days [of "Str ''Sunshine''" "Num (Fin 1)" "['' '']"] by simp
qed

subsection \<open>The URL builders\<close>

text \<open>
  Claim C3. \<^verbatim>\<open>queryURL("Sunshine", 1, 1)\<close>, with \<open>maxResults\<close> left to its default of
  \<open>100\<close>, and \<^verbatim>\<open>feedURL("testuser")\<close> are the two strings of the tests.
\<close>

theorem queryURL_feedURL_examples:
  "queryURL (Str ''Sunshine'') (Num (Fin 1)) (Num (Fin 1)) Undefined =
     ''https://jira.secondlife.com/rest/api/2/search?jql=project=Sunshine+and+status=1+and+status+changed+to+1+before+-1d&fields=id,status,key,assignee,summary&maxresults=100'' \<and>
   feedURL (Str ''testuser'') =
     ''https://jira.secondlife.com/activity?maxResults=50&streams=user+IS+testuser&providers=issues''"
  by (simp add: queryURL_def feedURL_def Number_toString_1 Number_toString_100)

text \<open>
  Claim C8. The URL builders and the table renderer are functions of their arguments: they
  take no state and leave none. Their output is determined by the string forms of the
  arguments (for the table, by the concatenation of the rows, whether there are rows, and
  whether the kind is \<^verbatim>\<open>"query"\<close>), so two calls with identical inputs return the same bytes.
\<close>

theorem builders_depend_on_string_forms:
  "(ToString project = ToString project' \<and> ToString st = ToString st' \<and>
    ToString days = ToString days' \<longrightarrow>
      queryURL project st days maxResults = queryURL project' st' days' maxResults) \<and>
   (ToString user = ToString user' \<longrightarrow> feedURL user = feedURL user') \<and>
   (concat rows = concat rows' \<and> (rows = []) = (rows' = []) \<and>
    (kind = Str ''query'') = (kind' = Str ''query'') \<longrightarrow>
      resultsTable rows heading kind = resultsTable rows' heading kind')"
  by (auto simp: queryURL_def feedURL_def resultsTable_def Let_def join_empty_sep)

theorem builders_depend_on_string_forms_witness:
  "queryURL (Str ''Sunshine'') (Num (Fin 1)) (Num (Fin 1)) Undefined =
     queryURL (Str ''Sunshine'') (Str ''1'') (Str ''1'') Undefined \<and>
   feedURL (Num (Fin 1)) = feedURL (Str ''1'') \<and>
   resultsTable [''<tr>'', ''</tr>''] ''Activity'' Undefined =
     resultsTable [''<tr></tr>''] ''Activity'' Null"
  using builders_depend_on_string_forms
    [of "Str ''Sunshine''" "Str ''Sunshine''" "Num (Fin 1)" "Str ''1''" "Num (Fin 1)" "Str ''1''"
      Undefined "Num (Fin 1)" "Str ''1''" "[''<tr>'', ''</tr>'']" "[''<tr></tr>'']"
      Undefined Null "''Activity''"]
  by (simp add: Number_toString_1)

subsection \<open>Rows and table\<close>

text \<open>
  Claim C4. \<^verbatim>\<open>buildQueryItems\<close> returns one row for each issue, in the order of the
  issues, and none for no issue. A row is a \<^verbatim>\<open>tr\<close> of three cells with only white space
  between the tags: the key; a \<^verbatim>\<open>span\<close> whose title is the description of the status and
  which holds the icon and the name of the status; the summary. For the issue of the tests
  the row and the markup of the specification are equal up to white space: without it, both
  are the string that \<^verbatim>\<open>main.test.js\<close> expects.
\<close>

theorem buildQueryItems_rows:
  \<open>length (buildQueryItems items) = length items \<and>
   buildQueryItems [] = [] \<and>
   (\<exists>w1 w2 w3 w4 w5 w6 w7 w8 w9. list_all blank [w1, w2, w3, w4, w5, w6, w7, w8, w9] \<and>
      buildQueryItems items = map (\<lambda>i.
        ''<tr>'' @ w1 @
        ''<td>'' @ ToString (key i) @ ''</td>'' @ w2 @
        ''<td>'' @ w3 @
          ''<span title="'' @ ToString (description (status (issue.fields i))) @ ''">'' @ w4 @
            ''<img src="'' @ ToString (iconUrl (status (issue.fields i))) @ ''" />'' @ w5 @
            ''<span>'' @ ToString (name (status (issue.fields i))) @ ''</span>'' @ w6 @
          ''</span>'' @ w7 @
        ''</td>'' @ w8 @
        ''<td>'' @ ToString (summary (issue.fields i)) @ ''</td>'' @ w9 @
        ''</tr>'') items) \<and>
   map remove_white_space (buildQueryItems [test_issue]) =
     [''<tr><td>1</td><td><spantitle="test"><imgsrc="testURL"/><span>testName</span></span></td><td>testSummary</td></tr>''] \<and>
   map remove_white_space (buildQueryItems [test_issue]) =
     [remove_white_space
        ''<tr><td>1</td><td><span title="test"><img src="testURL"/><span>testName</span></span></td><td>testSummary</td></tr>'']\<close>
proof (intro conjI)
  show "length (buildQueryItems items) = length items"
    by (simp add: buildQueryItems_def)
  show "buildQueryItems [] = []"
    by (simp add: buildQueryItems_def)
  show \<open>\<exists>w1 w2 w3 w4 w5 w6 w7 w8 w9. list_all blank [w1, w2, w3, w4, w5, w6, w7, w8, w9] \<and>
      buildQueryItems items = map (\<lambda>i.
        ''<tr>'' @ w1 @
        ''<td>'' @ ToString (key i) @ ''</td>'' @ w2 @
        ''<td>'' @ w3 @
          ''<span title="'' @ ToString (description (status (issue.fields i))) @ ''">'' @ w4 @
            ''<img src="'' @ ToString (iconUrl (status (issue.fields i))) @ ''" />'' @ w5 @
            ''<span>'' @ ToString (name (status (issue.fields i))) @ ''</span>'' @ w6 @
          ''</span>'' @ w7 @
        ''</td>'' @ w8 @
        ''<td>'' @ ToString (summary (issue.fields i)) @ ''</td>'' @ w9 @
        ''</tr>'') items\<close>
    apply (rule exI [where x = "line_break 14"])
    apply (rule exI [where x = "line_break 14"])
    apply (rule exI [where x = "line_break 16"])
    apply (rule exI [where x = "line_break 18"])
    apply (rule exI [where x = "line_break 18"])
    apply (rule exI [where x = "line_break 16"])
    apply (rule exI [where x = "line_break 14"])
    apply (rule exI [where x = "line_break 14"])
    apply (rule exI [where x = "line_break 12"])
    apply (simp add: blank_line_break buildQueryItems_def)
    done
  show stripped: \<open>map remove_white_space (buildQueryItems [test_issue]) =
     [''<tr><td>1</td><td><spantitle="test"><imgsrc="testURL"/><span>testName</span></span></td><td>testSummary</td></tr>'']\<close>
    by (simp add: buildQueryItems_def test_issue_def Number_toString_1 line_break_def
        token_len_def white_space_def remove_white_space_spaces_append)
  have \<open>remove_white_space
      ''<tr><td>1</td><td><span title="test"><img src="testURL"/><span>testName</span></span></td><td>testSummary</td></tr>'' =
     ''<tr><td>1</td><td><spantitle="test"><imgsrc="testURL"/><span>testName</span></span></td><td>testSummary</td></tr>''\<close>
    by (simp add: token_len_def white_space_def)
  with stripped show \<open>map remove_white_space (buildQueryItems [test_issue]) =
     [remove_white_space
        ''<tr><td>1</td><td><span title="test"><img src="testURL"/><span>testName</span></span></td><td>testSummary</td></tr>'']\<close>
    by simp
qed

text \<open>
  Claim C5. The table is, with only white space between its parts: the heading followed
  by \<^verbatim>\<open>Results\<close>; a header row of Issue, Status and Summary when the kind is \<^verbatim>\<open>"query"\<close> and
  of Date and Activity otherwise; and a body that is the rows one after the other when
  there are any, and the single row announcing that there are no results when there are
  none.
\<close>

theorem resultsTable_layout:
  \<open>\<exists>w1 w2 w3 w4 w5 w6 w7 w8. list_all blank [w1, w2, w3, w4, w5, w6, w7, w8] \<and>
     resultsTable rows heading kind =
       ''<h5>'' @ heading @ '' Results</h5>'' @ w1 @
       ''<table width="100%">'' @ w2 @
       ''<thead>'' @ w3 @
       (if kind = Str ''query''
        then ''<tr><th>Issue</th><th>Status</th><th>Summary</th></tr>''
        else ''<tr><th>Date</th><th>Activity</th></tr>'') @ w4 @
       ''</thead>'' @ w5 @
       ''<tbody>'' @ w6 @
       (if rows = []
        then ''<tr><td colspan="3">There are no '' @ heading @ '' results</td></tr>''
        else concat rows) @ w7 @
       ''</tbody>'' @ w8 @
       ''</table>''\<close>
  apply (rule exI [where x = "line_break 10"])
  apply (rule exI [where x = "line_break 12"])
  apply (rule exI [where x = "line_break 12"])
  apply (rule exI [where x = "line_break 0 @ line_break 12"])
  apply (rule exI [where x = "line_break 12"])
  apply (rule exI [where x = "line_break 14"])
  apply (rule exI [where x = "line_break 12"])
  apply (rule exI [where x = "line_break 10"])
  apply (simp add: blank_line_break blank_line_breaks resultsTable_def join_empty_sep)
  done

text \<open>
  Claim C9. Without rows, the row of the empty state has \<^verbatim>\<open>colspan="3"\<close> for every heading
  and every kind, also under the header of the two columns Date and Activity.
\<close>

theorem resultsTable_empty_colspan:
  \<open>resultsTable [] heading kind =
     ''<h5>'' @ heading @ '' Results</h5>'' @ line_break 10 @
     ''<table width="100%">'' @ line_break 12 @
     ''<thead>'' @ line_break 12 @
     (if kind = Str ''query''
      then ''<tr><th>Issue</th><th>Status</th><th>Summary</th></tr>''
      else ''<tr><th>Date</th><th>Activity</th></tr>'') @ line_break 0 @ line_break 12 @
     ''</thead>'' @ line_break 12 @
     ''<tbody>'' @ line_break 14 @
     ''<tr><td colspan="3">There are no '' @ heading @ '' results</td></tr>'' @ line_break 12 @
     ''</tbody>'' @ line_break 10 @
     ''</table>'' \<and>
   resultsTable [] ''JIRA Activity Query'' Undefined =
     ''<h5>JIRA Activity Query Results</h5>'' @ line_break 10 @
     ''<table width="100%">'' @ line_break 12 @
     ''<thead>'' @ line_break 12 @
     ''<tr><th>Date</th><th>Activity</th></tr>'' @ line_break 0 @ line_break 12 @
     ''</thead>'' @ line_break 12 @
     ''<tbody>'' @ line_break 14 @
     ''<tr><td colspan="3">There are no JIRA Activity Query results</td></tr>'' @
     line_break 12 @
     ''</tbody>'' @ line_break 10 @
     ''</table>''\<close>
  by (simp add: resultsTable_def)

subsection \<open>The activity feed\<close>

lemma feed_loop_well_formed:
  "list_all well_formed_entry entries \<Longrightarrow>
   feed_loop b entries items = Inr (items @ map (feed_row b) entries)"
  by (induction entries arbitrary: items)
     (auto simp: well_formed_entry_def feed_row_def Let_def split: list.splits)

lemma feed_loop_malformed:
  "\<not> list_all well_formed_entry entries \<Longrightarrow> feed_loop b entries items = Inl TypeError"
  by (induction entries arbitrary: items)
     (auto simp: well_formed_entry_def Let_def split: list.splits)

text \<open>
  Claim C6, as the code has it. Without a \<^verbatim>\<open>feed\<close> element in the document
  \<^verbatim>\<open>buildFeedItems\<close> fails: it reads a property of \<^verbatim>\<open>undefined\<close>, a \<^verbatim>\<open>TypeError\<close>. With one,
  it takes the first and goes through the \<^verbatim>\<open>entry\<close> elements below it, at any depth, in
  document order. When each of them holds a \<^verbatim>\<open>title\<close> and an \<^verbatim>\<open>updated\<close> element, the result
  is one row for each entry, with the formatted time of its update and the text of its
  title; when one of them lacks either, the call fails in the same way.
\<close>

theorem buildFeedItems_rows:
  "buildFeedItems b doc =
     (case document_getElementsByTagName doc ''feed'' of
        [] \<Rightarrow> Inl TypeError
      | feed0 # others \<Rightarrow>
          if list_all well_formed_entry (getElementsByTagName feed0 ''entry'')
          then Inr (map (feed_row b) (getElementsByTagName feed0 ''entry''))
          else Inl TypeError)"
  using feed_loop_well_formed [where items = "[]"] feed_loop_malformed
  by (simp add: buildFeedItems_def split: list.splits)

text \<open>
  The claim as it was stated promises a row for each entry of every document with a feed
  root. A feed whose only entry has no title is a document with a feed root, and the call
  fails on it.
\<close>

theorem buildFeedItems_entry_without_title:
  "document_getElementsByTagName [Element ''feed'' [Element ''entry'' []]] ''feed'' \<noteq> [] \<and>
   buildFeedItems sample_browser [Element ''feed'' [Element ''entry'' []]] = Inl TypeError"
  by (simp add: buildFeedItems_def document_getElementsByTagName_def getElementsByTagName_def)

text \<open>An entry that is not a child of the feed element but lies deeper has its row too.\<close>

lemma buildFeedItems_nested_entry:
  "buildFeedItems sample_browser
     [Element ''feed'' [Element ''page''
        [Element ''entry'' [Element ''title'' [], Element ''updated'' []]]]] =
   Inr [''<tr>'' @ line_break 10 @ ''<td>updated</td>'' @ line_break 10 @
        ''<td><!doctype html><body>title</td>'' @ line_break 6 @ ''</tr>'']"
  by (simp add: buildFeedItems_def document_getElementsByTagName_def getElementsByTagName_def
      sample_browser_def domify_def)

subsection \<open>Failed requests\<close>


lemma errorMessages_joined_network: "errorMessages_joined network_error = Inr ''Network Error''"
  by (simp add: errorMessages_joined_def network_error_def Get_def call_join_def)





text \<open>
  The same clause takes every other exception of the block: a body that is not JSON under
  any status, and a body from which the messages cannot be joined.
\<close>

lemma make_request_caught:
  assumes "fetch url = Resolves r" and "\<not> response_ok r"
    and "response_json r = None \<or>
         (\<exists>json e. response_json r = Some json \<and> response_status r \<noteq> 401 \<and>
            errorMessages_joined json = Inl e)"
  shows "make_request fetch url responseType w =
     (Inr ReturnsUndefined, error_status url ''Network Error'' w)"
  using assms
  by (auto simp: make_request_def handleError_def errorMessages_joined_network
      updateStatus_def error_status_def)

end
